theory Spec2Isabelle
  imports Complex_Main
begin

section \<open>Values, exceptions and the outside world\<close>

text \<open>
  The client \<^verbatim>\<open>pypesa.Mpesa\<close> (file \<^verbatim>\<open>src/pypesa/__init__.py\<close>) reads a key store,
  encrypts with RSA and talks HTTP. Everything outside the class is an oracle of the
  record \<open>env\<close>; every call of an oracle is logged as an \<open>event\<close>, and the oracle sees
  the events logged before it, so a server, a file system and a random padding that
  answer differently from call to call are all covered.

  Values that come out of \<^verbatim>\<open>json.load\<close> and \<^verbatim>\<open>response.json()\<close>, and the values a
  caller passes where the source checks \<^verbatim>\<open>isinstance(_, str)\<close>, are of type \<open>json\<close>.
  A dict is the list of its items (the keys of a dict are distinct).
\<close>

datatype json =
    JNull
  | JBool bool
  | JInt int
  | JFloat real
  | JStr string
  | JArr "json list"
  | JObj "(string \<times> json) list"

text \<open>Python's truth value of a value: \<^verbatim>\<open>if x:\<close>.\<close>

fun truthy :: "json \<Rightarrow> bool" where
  "truthy JNull = False"
| "truthy (JBool b) = b"
| "truthy (JInt i) = (i \<noteq> 0)"
| "truthy (JFloat r) = (r \<noteq> 0)"
| "truthy (JStr s) = (s \<noteq> [])"
| "truthy (JArr xs) = (xs \<noteq> [])"
| "truthy (JObj kvs) = (kvs \<noteq> [])"

text \<open>
  \<^verbatim>\<open>x[key]\<close> with a string key: \<open>None\<close> when the subscript raises (\<^verbatim>\<open>KeyError\<close> on a
  dict without the key, \<^verbatim>\<open>TypeError\<close> on every value that is not a dict). Both
  places that subscript a loaded value stand under \<^verbatim>\<open>except Exception\<close>.
\<close>

fun getitem :: "json \<Rightarrow> string \<Rightarrow> json option" where
  "getitem (JObj kvs) k = map_of kvs k"
| "getitem _ k = None"

text \<open>
  Exceptions by class; the message text is not modelled, except the set of keys that
  the \<^verbatim>\<open>KeyError\<close> of \<^verbatim>\<open>verify_query\<close> formats into its message.
  \<open>AuthenticationError\<close>, \<open>LoadingKeyError\<close> and \<open>ConnectionError\<close> are the classes of
  \<^verbatim>\<open>mpesa_exceptions\<close>; \<open>RequestsConnectTimeout\<close> and \<open>RequestsConnectionError\<close> are
  \<^verbatim>\<open>requests.ConnectTimeout\<close> and \<^verbatim>\<open>requests.ConnectionError\<close>;
  \<open>RequestsConnectionSubclass\<close> is any other subclass of \<^verbatim>\<open>requests.ConnectionError\<close>,
  by its name (\<^verbatim>\<open>SSLError\<close>, \<^verbatim>\<open>ProxyError\<close>); \<open>OtherException\<close> is any other subclass
  of \<^verbatim>\<open>Exception\<close> an oracle raises, by its name.
\<close>

datatype exn =
    AuthenticationError
  | LoadingKeyError
  | ConnectionError
  | FileNotFoundError
  | KeyError "string set"
  | TypeError
  | RequestsConnectTimeout
  | RequestsConnectionError
  | RequestsConnectionSubclass string
  | OtherException string

type_synonym headers = "(string \<times> string) list"

type_synonym query = "(string \<times> json) list"

text \<open>The URL table of one environment (module \<^verbatim>\<open>service_urls\<close>, not in the sources).\<close>

record service_urls =
  session_id :: string
  single_stage_c2b :: string
  single_stage_b2c :: string
  single_stage_b2b :: string
  payment_reversal :: string
  transaction_status :: string

datatype event =
    Listdir
  | OpenRead string
  | Encrypt string string
  | Get string headers
  | Post string query headers

text \<open>
  The oracles. \<open>os_listdir\<close> is \<^verbatim>\<open>os.listdir()\<close>; \<open>load_json\<close> is
  \<^verbatim>\<open>open(path, "r")\<close> followed by \<^verbatim>\<open>json.load\<close>; \<open>rsa_encrypt pub raw\<close> is lines
  74 to 79 of the source on two strings (base64-decode and import the key, PKCS#1
  v1.5 encryption of the encoded plaintext, base64 of the ciphertext);
  \<open>requests_get\<close> and \<open>requests_post\<close> are the request followed by \<^verbatim>\<open>.json()\<close> on the
  response: the outer sum is the request's own failure, the inner one the failure of
  parsing the body.
\<close>

record env =
  production :: service_urls
  sandbox :: service_urls
  os_listdir :: "event list \<Rightarrow> exn + string list"
  load_json :: "event list \<Rightarrow> string \<Rightarrow> exn + json"
  rsa_encrypt :: "event list \<Rightarrow> string \<Rightarrow> string \<Rightarrow> exn + string"
  requests_get :: "event list \<Rightarrow> string \<Rightarrow> headers \<Rightarrow> exn + (exn + json)"
  requests_post :: "event list \<Rightarrow> string \<Rightarrow> query \<Rightarrow> headers \<Rightarrow> exn + (exn + json)"

section \<open>The client\<close>

text \<open>
  The attributes of an \<^verbatim>\<open>Mpesa\<close> object. \<open>auth_keys = None\<close>: the attribute is not
  assigned yet; \<open>encrypted_api_key = None\<close>: Python's \<^verbatim>\<open>None\<close>.
\<close>

record client =
  auth_path :: string
  auth_keys :: "json option"
  encrypted_api_key :: "string option"
  origin_ip :: string
  urls :: service_urls

text \<open>A method runs on the object and on the log of events, and returns both.\<close>

record state =
  self :: client
  trace :: "event list"

definition log :: "event \<Rightarrow> state \<Rightarrow> state" where
  "log ev s = s\<lparr>trace := trace s @ [ev]\<rparr>"

subsection \<open>Origin address (lines 86 to 95)\<close>

definition origin_address :: "client \<Rightarrow> string" where
  "origin_address c = origin_ip c"

definition set_origin_address :: "json \<Rightarrow> client \<Rightarrow> (exn + unit) \<times> client" where
  "set_origin_address ip_address c =
     (case ip_address of
        JStr a \<Rightarrow> (Inr (), c\<lparr>origin_ip := a\<rparr>)
      | _ \<Rightarrow> (Inl TypeError, c))"

subsection \<open>Headers and the session id (lines 97 to 122)\<close>

text \<open>The dict that \<^verbatim>\<open>default_headers\<close> returns (lines 100 to 105).\<close>

definition headers_dict :: "client \<Rightarrow> string \<Rightarrow> headers" where
  "headers_dict c auth_key =
     [(''Content-Type'', ''application/json''),
      (''Authorization'', ''Bearer '' @ auth_key),
      (''Host'', ''openapi.m-pesa.com''),
      (''Origin'', origin_address c)]"

text \<open>\<^verbatim>\<open>not auth_key\<close> for an \<^verbatim>\<open>Optional[str]\<close>.\<close>

definition falsy :: "string option \<Rightarrow> bool" where
  "falsy k = (case k of None \<Rightarrow> True | Some a \<Rightarrow> a = [])"

text \<open>
  \<^verbatim>\<open>get_session_id\<close> calls \<^verbatim>\<open>default_headers(auth_key=self.__encrypted_api_key)\<close>. With
  a stored key that is not empty, that call returns \<open>headers_dict\<close> of the key at once
  (lemma \<open>default_headers_given\<close> below). With a stored key that is \<^verbatim>\<open>None\<close> or empty,
  \<^verbatim>\<open>default_headers\<close> calls \<^verbatim>\<open>__generate_encrypted_key(session=True)\<close>, which calls
  \<^verbatim>\<open>get_session_id\<close> again, with no request in between: Python ends that with a
  \<^verbatim>\<open>RecursionError\<close>, an \<^verbatim>\<open>Exception\<close>, which the handler of line 120 turns into
  \<^verbatim>\<open>AuthenticationError\<close>.
\<close>

definition get_session_id :: "env \<Rightarrow> state \<Rightarrow> (exn + json) \<times> state" where
  "get_session_id E s =
     (if falsy (encrypted_api_key (self s)) then (Inl AuthenticationError, s)
      else
        let headers = headers_dict (self s) (the (encrypted_api_key (self s)));
            url = session_id (urls (self s));
            s1 = log (Get url headers) s
        in case requests_get E (trace s) url headers of
             Inl e \<Rightarrow> (Inl AuthenticationError, s1)
           | Inr (Inl e) \<Rightarrow> (Inl AuthenticationError, s1)
           | Inr (Inr response) \<Rightarrow>
               (case getitem response ''output_SessionID'' of
                  None \<Rightarrow> (Inl AuthenticationError, s1)
                | Some sid \<Rightarrow>
                    (case getitem response ''output_ResponseCode'' of
                       None \<Rightarrow> (Inl AuthenticationError, s1)
                     | Some response_code \<Rightarrow>
                         (case getitem response ''output_ResponseDesc'' of
                            None \<Rightarrow> (Inl AuthenticationError, s1)
                          | Some description \<Rightarrow>
                              if response_code = JStr ''INS-989''
                              then (Inl AuthenticationError, s1)
                              else (Inr sid, s1)))))"

text \<open>
  \<^verbatim>\<open>__generate_encrypted_key\<close> (lines 65 to 84). Every exception of the body becomes
  \<^verbatim>\<open>AuthenticationError\<close>: a missing \<^verbatim>\<open>auth_keys\<close> attribute, a failing subscript, a
  failing session request, a public key that is not a string (\<^verbatim>\<open>b64decode\<close> raises),
  a raw key that is not a string (\<^verbatim>\<open>.encode()\<close> raises), and a failure of the
  encryption itself.
\<close>

definition generate_encrypted_key :: "env \<Rightarrow> bool \<Rightarrow> state \<Rightarrow> (exn + string) \<times> state" where
  "generate_encrypted_key E session s =
     (case auth_keys (self s) of
        None \<Rightarrow> (Inl AuthenticationError, s)
      | Some keys \<Rightarrow>
          (case getitem keys ''public_key'' of
             None \<Rightarrow> (Inl AuthenticationError, s)
           | Some pub_key \<Rightarrow>
               (case getitem keys ''api_key'' of
                  None \<Rightarrow> (Inl AuthenticationError, s)
                | Some api_key \<Rightarrow>
                    (case (if session then get_session_id E s else (Inr api_key, s)) of
                       (Inl e, s1) \<Rightarrow> (Inl AuthenticationError, s1)
                     | (Inr raw_key, s1) \<Rightarrow>
                         (case (pub_key, raw_key) of
                            (JStr p, JStr r) \<Rightarrow>
                              (case rsa_encrypt E (trace s1) p r of
                                 Inl e \<Rightarrow> (Inl AuthenticationError, log (Encrypt p r) s1)
                               | Inr encrypted_key \<Rightarrow> (Inr encrypted_key, log (Encrypt p r) s1))
                          | _ \<Rightarrow> (Inl AuthenticationError, s1))))))"

definition default_headers :: "env \<Rightarrow> string option \<Rightarrow> state \<Rightarrow> (exn + headers) \<times> state" where
  "default_headers E auth_key s =
     (if falsy auth_key then
        (case generate_encrypted_key E True s of
           (Inl e, s1) \<Rightarrow> (Inl e, s1)
         | (Inr k, s1) \<Rightarrow> (Inr (headers_dict (self s1) k), s1))
      else (Inr (headers_dict (self s) (the auth_key)), s))"

subsection \<open>Construction (lines 15 to 63)\<close>

text \<open>\<^verbatim>\<open>__load_keys\<close>, a static method: it touches the log only.\<close>

definition load_keys :: "env \<Rightarrow> string \<Rightarrow> event list \<Rightarrow> (exn + json) \<times> event list" where
  "load_keys E keys_filename tr =
     (case load_json E tr keys_filename of
        Inr v \<Rightarrow> (Inr v, tr @ [OpenRead keys_filename])
      | Inl e \<Rightarrow>
          (if e = FileNotFoundError then (Inl FileNotFoundError, tr @ [OpenRead keys_filename])
           else (Inl LoadingKeyError, tr @ [OpenRead keys_filename])))"

text \<open>The property \<^verbatim>\<open>authenticated\<close> (lines 32 to 46); it assigns two attributes.\<close>

definition authenticated :: "env \<Rightarrow> state \<Rightarrow> (exn + bool) \<times> state" where
  "authenticated E s =
     (case os_listdir E (trace s) of
        Inl e \<Rightarrow> (Inl e, log Listdir s)
      | Inr names \<Rightarrow>
          if auth_path (self s) \<in> set names then
            (case load_keys E (auth_path (self s)) (trace s @ [Listdir]) of
               (Inl e, tr) \<Rightarrow> (Inl e, s\<lparr>trace := tr\<rparr>)
             | (Inr keys, tr) \<Rightarrow>
                 let s1 = \<lparr>self = (self s)\<lparr>auth_keys := Some keys\<rparr>, trace = tr\<rparr> in
                 if truthy keys then
                   (case generate_encrypted_key E False s1 of
                      (Inl e, s2) \<Rightarrow> (Inl e, s2)
                    | (Inr k, s2) \<Rightarrow>
                        let s3 = s2\<lparr>self := (self s2)\<lparr>encrypted_api_key := Some k\<rparr>\<rparr> in
                        if k \<noteq> [] then (Inr True, s3) else (Inr False, s3))
                 else (Inr False, s1))
          else (Inl FileNotFoundError, log Listdir s))"

text \<open>
  \<^verbatim>\<open>Mpesa(auth_path, environment)\<close>: the object exists for the caller only when
  \<^verbatim>\<open>__init__\<close> returns.
\<close>

definition Mpesa_init :: "env \<Rightarrow> string \<Rightarrow> string \<Rightarrow> event list \<Rightarrow> (exn + client) \<times> event list" where
  "Mpesa_init E path environment tr =
     (let s0 = \<lparr>self = \<lparr>auth_path = path, auth_keys = None, encrypted_api_key = None,
                         origin_ip = ''*'',
                         urls = (if environment = ''production'' then production E
                                 else sandbox E)\<rparr>,
                 trace = tr\<rparr>
      in case authenticated E s0 of
           (Inl e, s) \<Rightarrow> (Inl e, trace s)
         | (Inr ok, s) \<Rightarrow>
             if \<not> ok then (Inl AuthenticationError, trace s) else (Inr (self s), trace s))"

subsection \<open>Transactions (lines 124 to 257)\<close>

definition verify_query :: "query \<Rightarrow> string set \<Rightarrow> exn + bool" where
  "verify_query transaction_query required_fields =
     (let query_keys = set (map fst transaction_query);
          missing_keys = required_fields - query_keys
      in if missing_keys \<noteq> {} then Inl (KeyError missing_keys) else Inr True)"

text \<open>
  The handler \<^verbatim>\<open>except (requests.ConnectTimeout, requests.ConnectionError)\<close>: it
  catches the two classes and every subclass of them (\<^verbatim>\<open>ConnectTimeout\<close> is itself a
  subclass of \<^verbatim>\<open>requests.ConnectionError\<close>); every other exception leaves the method
  as it is.
\<close>

fun is_requests_connection_error :: "exn \<Rightarrow> bool" where
  "is_requests_connection_error RequestsConnectTimeout = True"
| "is_requests_connection_error RequestsConnectionError = True"
| "is_requests_connection_error (RequestsConnectionSubclass name) = True"
| "is_requests_connection_error _ = False"

definition on_connection_error :: "exn \<Rightarrow> exn" where
  "on_connection_error e = (if is_requests_connection_error e then ConnectionError else e)"

text \<open>
  The \<^verbatim>\<open>try\<close> statement that the five transaction methods share word for word but for
  the URL: \<^verbatim>\<open>requests.post(url, json=transaction_query, headers=self.default_headers(),
  verify=True).json()\<close>. The headers are built inside the \<^verbatim>\<open>try\<close>, before the request.
\<close>

definition post_query :: "env \<Rightarrow> string \<Rightarrow> query \<Rightarrow> state \<Rightarrow> (exn + json) \<times> state" where
  "post_query E url transaction_query s =
     (case default_headers E (Some []) s of
        (Inl e, s1) \<Rightarrow> (Inl (on_connection_error e), s1)
      | (Inr headers, s1) \<Rightarrow>
          (case requests_post E (trace s1) url transaction_query headers of
             Inl e \<Rightarrow> (Inl (on_connection_error e), log (Post url transaction_query headers) s1)
           | Inr (Inl e) \<Rightarrow>
               (Inl (on_connection_error e), log (Post url transaction_query headers) s1)
           | Inr (Inr body) \<Rightarrow> (Inr body, log (Post url transaction_query headers) s1)))"

definition c2b_required_fields :: "string set" where
  "c2b_required_fields =
     {''input_Amount'', ''input_Country'', ''input_Currency'', ''input_CustomerMSISDN'',
      ''input_ServiceProviderCode'', ''input_ThirdPartyConversationID'',
      ''input_TransactionReference'', ''input_PurchasedItemsDesc''}"

definition customer_to_bussiness :: "env \<Rightarrow> query \<Rightarrow> state \<Rightarrow> (exn + json) \<times> state" where
  "customer_to_bussiness E transaction_query s =
     (case verify_query transaction_query c2b_required_fields of
        Inl e \<Rightarrow> (Inl e, s)
      | Inr _ \<Rightarrow> post_query E (single_stage_c2b (urls (self s))) transaction_query s)"

definition b2c_required_fields :: "string set" where
  "b2c_required_fields =
     {''input_Amount'', ''input_Country'', ''input_Currency'', ''input_CustomerMSISDN'',
      ''input_ServiceProviderCode'', ''input_ThirdPartyConversationID'',
      ''input_TransactionReference'', ''input_PaymentItemsDesc''}"

definition bussiness_to_customer :: "env \<Rightarrow> query \<Rightarrow> state \<Rightarrow> (exn + json) \<times> state" where
  "bussiness_to_customer E transaction_query s =
     (case verify_query transaction_query b2c_required_fields of
        Inl e \<Rightarrow> (Inl e, s)
      | Inr _ \<Rightarrow> post_query E (single_stage_b2c (urls (self s))) transaction_query s)"

definition b2b_required_fields :: "string set" where
  "b2b_required_fields =
     {''input_Amount'', ''input_Country'', ''input_Currency'', ''input_PrimaryPartyCode'',
      ''input_ReceiverPartyCode'', ''input_ThirdPartyConversationID'',
      ''input_TransactionReference'', ''input_PurchasedItemsDesc''}"

definition bussiness_to_bussiness :: "env \<Rightarrow> query \<Rightarrow> state \<Rightarrow> (exn + json) \<times> state" where
  "bussiness_to_bussiness E transaction_query s =
     (case verify_query transaction_query b2b_required_fields of
        Inl e \<Rightarrow> (Inl e, s)
      | Inr _ \<Rightarrow> post_query E (single_stage_b2b (urls (self s))) transaction_query s)"

definition reversal_required_fields :: "string set" where
  "reversal_required_fields =
     {''input_Country'', ''input_ReversalAmount'', ''input_ServiceProviderCode'',
      ''input_ThirdPartyConversationID'', ''input_TransactionID''}"

definition payment_reversal_call :: "env \<Rightarrow> query \<Rightarrow> state \<Rightarrow> (exn + json) \<times> state" where
  "payment_reversal_call E transaction_query s =
     (case verify_query transaction_query reversal_required_fields of
        Inl e \<Rightarrow> (Inl e, s)
      | Inr _ \<Rightarrow> post_query E (payment_reversal (urls (self s))) transaction_query s)"

definition status_required_fields :: "string set" where
  "status_required_fields =
     {''input_Country'', ''input_QueryReference'', ''input_ServiceProviderCode'',
      ''input_ThirdPartyConversationID''}"

definition query_transaction_status :: "env \<Rightarrow> query \<Rightarrow> state \<Rightarrow> (exn + json) \<times> state" where
  "query_transaction_status E transaction_query s =
     (case verify_query transaction_query status_required_fields of
        Inl e \<Rightarrow> (Inl e, s)
      | Inr _ \<Rightarrow> post_query E (transaction_status (urls (self s))) transaction_query s)"

text \<open>The five transaction kinds, to speak of all five methods at once.\<close>

datatype kind = C2B | B2C | B2B | Reversal | Status

fun dispatch :: "kind \<Rightarrow> env \<Rightarrow> query \<Rightarrow> state \<Rightarrow> (exn + json) \<times> state" where
  "dispatch C2B = customer_to_bussiness"
| "dispatch B2C = bussiness_to_customer"
| "dispatch B2B = bussiness_to_bussiness"
| "dispatch Reversal = payment_reversal_call"
| "dispatch Status = query_transaction_status"

fun required_fields :: "kind \<Rightarrow> string set" where
  "required_fields C2B = c2b_required_fields"
| "required_fields B2C = b2c_required_fields"
| "required_fields B2B = b2b_required_fields"
| "required_fields Reversal = reversal_required_fields"
| "required_fields Status = status_required_fields"

fun endpoint :: "kind \<Rightarrow> service_urls \<Rightarrow> string" where
  "endpoint C2B u = single_stage_c2b u"
| "endpoint B2C u = single_stage_b2c u"
| "endpoint B2B u = single_stage_b2b u"
| "endpoint Reversal u = payment_reversal u"
| "endpoint Status u = transaction_status u"

section \<open>The specification's table of required fields\<close>



section \<open>Observing a run\<close>

text \<open>The events that a call has added to the log, and the requests among them.\<close>

definition new_events :: "state \<Rightarrow> state \<Rightarrow> event list" where
  "new_events s s' = drop (length (trace s)) (trace s')"

fun posts :: "event list \<Rightarrow> (string \<times> query \<times> headers) list" where
  "posts [] = []"
| "posts (Post u b h # evs) = (u, b, h) # posts evs"
| "posts (_ # evs) = posts evs"

fun gets :: "event list \<Rightarrow> (string \<times> headers) list" where
  "gets [] = []"
| "gets (Get u h # evs) = (u, h) # gets evs"
| "gets (_ # evs) = gets evs"

fun encryptions :: "event list \<Rightarrow> (string \<times> string) list" where
  "encryptions [] = []"
| "encryptions (Encrypt p r # evs) = (p, r) # encryptions evs"
| "encryptions (_ # evs) = encryptions evs"

text \<open>The request that \<^verbatim>\<open>get_session_id\<close> sends (lines 109 and 110).\<close>

definition session_request :: "state \<Rightarrow> event" where
  "session_request s =
     Get (session_id (urls (self s)))
       (headers_dict (self s) (the (encrypted_api_key (self s))))"

text \<open>
  A fully authenticated client: the loaded credentials are true in Python's sense and
  hold two strings under \<^verbatim>\<open>public_key\<close> and \<^verbatim>\<open>api_key\<close>, and the stored encrypted API
  key is a string that is not empty.
\<close>

fun is_str :: "json option \<Rightarrow> bool" where
  "is_str (Some (JStr a)) = True"
| "is_str _ = False"

definition fully_authenticated :: "client \<Rightarrow> bool" where
  "fully_authenticated c =
     ((case auth_keys c of
         None \<Rightarrow> False
       | Some keys \<Rightarrow>
           truthy keys \<and> is_str (getitem keys ''public_key'') \<and> is_str (getitem keys ''api_key''))
      \<and> \<not> falsy (encrypted_api_key c))"

section \<open>Example environments\<close>

definition example_sandbox :: service_urls where
  "example_sandbox =
     \<lparr>session_id = ''sandbox/getSession'', single_stage_c2b = ''sandbox/c2bPayment'',
      single_stage_b2c = ''sandbox/b2cPayment'', single_stage_b2b = ''sandbox/b2bPayment'',
      payment_reversal = ''sandbox/reversal'', transaction_status = ''sandbox/queryStatus''\<rparr>"

definition example_production :: service_urls where
  "example_production =
     \<lparr>session_id = ''openapi/getSession'', single_stage_c2b = ''openapi/c2bPayment'',
      single_stage_b2c = ''openapi/b2cPayment'', single_stage_b2b = ''openapi/b2bPayment'',
      payment_reversal = ''openapi/reversal'', transaction_status = ''openapi/queryStatus''\<rparr>"

definition example_keys :: json where
  "example_keys = JObj [(''public_key'', JStr ''PUBKEY''), (''api_key'', JStr ''APIKEY'')]"

definition example_session :: json where
  "example_session =
     JObj [(''output_ResponseCode'', JStr ''INS-0''),
           (''output_ResponseDesc'', JStr ''Request processed successfully''),
           (''output_SessionID'', JStr ''SID'')]"

definition example_reply :: json where
  "example_reply =
     JObj [(''output_ResponseCode'', JStr ''INS-0''), (''output_ConversationID'', JStr ''c1'')]"

text \<open>
  A world where everything works: the working directory holds \<^verbatim>\<open>keys.json\<close> and a
  directory \<^verbatim>\<open>config\<close>, every path opens and parses as \<open>example_keys\<close> (also
  \<^verbatim>\<open>config/keys.json\<close>), the encryption succeeds, and both endpoints answer.
\<close>

definition example_env :: env where
  "example_env =
     \<lparr>production = example_production, sandbox = example_sandbox,
      os_listdir = (\<lambda>tr. Inr [''config'', ''keys.json'']),
      load_json = (\<lambda>tr path. Inr example_keys),
      rsa_encrypt = (\<lambda>tr pub raw. Inr (''enc:'' @ raw)),
      requests_get = (\<lambda>tr url h. Inr (Inr example_session)),
      requests_post = (\<lambda>tr url q h. Inr (Inr example_reply))\<rparr>"

text \<open>The same world with an empty working directory.\<close>

definition empty_dir_env :: env where
  "empty_dir_env = example_env\<lparr>os_listdir := (\<lambda>tr. Inr [])\<rparr>"

text \<open>The same world with the session endpoint out of reach.\<close>

definition offline_env :: env where
  "offline_env = example_env\<lparr>requests_get := (\<lambda>tr url h. Inl RequestsConnectionError)\<rparr>"

text \<open>The client that \<^verbatim>\<open>Mpesa()\<close> builds in \<open>example_env\<close>, and a state that holds it.\<close>

definition example_client :: client where
  "example_client =
     \<lparr>auth_path = ''keys.json'', auth_keys = Some example_keys,
      encrypted_api_key = Some ''enc:APIKEY'', origin_ip = ''*'', urls = example_sandbox\<rparr>"

definition example_state :: state where
  "example_state = \<lparr>self = example_client, trace = []\<rparr>"

text \<open>A reversal query with its five required fields and one more field.\<close>

definition reversal_query :: query where
  "reversal_query =
     [(''input_Country'', JStr ''TZN''), (''input_ReversalAmount'', JStr ''25''),
      (''input_ServiceProviderCode'', JStr ''000000''),
      (''input_ThirdPartyConversationID'', JStr ''asv02e5958774f7ba228d83d0d689761''),
      (''input_TransactionID'', JStr ''0000000000001''), (''note'', JInt 1)]"

text \<open>The same world with a session endpoint that rejects the key with \<^verbatim>\<open>INS-989\<close>.\<close>

definition rejected_session :: json where
  "rejected_session =
     JObj [(''output_ResponseCode'', JStr ''INS-989''),
           (''output_ResponseDesc'', JStr ''Session creation failed''),
           (''output_SessionID'', JStr ''SID'')]"

definition rejecting_env :: env where
  "rejecting_env = example_env\<lparr>requests_get := (\<lambda>tr url h. Inr (Inr rejected_session))\<rparr>"

text \<open>The same world with a key store that does not parse, and with one that is empty.\<close>

definition unparsable_env :: env where
  "unparsable_env =
     example_env\<lparr>load_json := (\<lambda>tr path. Inl (OtherException ''JSONDecodeError''))\<rparr>"

definition empty_keys_env :: env where
  "empty_keys_env = example_env\<lparr>load_json := (\<lambda>tr path. Inr (JObj []))\<rparr>"

section \<open>Required fields\<close>

lemma dispatch_verify:
  "dispatch k E q s =
     (case verify_query q (required_fields k) of
        Inl e \<Rightarrow> (Inl e, s)
      | Inr _ \<Rightarrow> post_query E (endpoint k (urls (self s))) q s)"
  by (cases k)
     (simp_all add: customer_to_bussiness_def bussiness_to_customer_def
        bussiness_to_bussiness_def payment_reversal_call_def query_transaction_status_def
        split: sum.split)


section \<open>What a call leaves behind\<close>

lemma get_session_id_self: "self (snd (get_session_id E s)) = self s"
  by (simp add: get_session_id_def log_def Let_def split: sum.split option.split)

lemma get_session_id_state:
  "snd (get_session_id E s) =
     (if falsy (encrypted_api_key (self s)) then s else log (session_request s) s)"
  by (simp add: get_session_id_def session_request_def Let_def split: sum.split option.split)

lemma get_session_id_error:
  "fst (get_session_id E s) = Inl e \<Longrightarrow> e = AuthenticationError"
  by (simp add: get_session_id_def Let_def split: sum.splits option.splits if_splits)

lemma get_session_id_sent:
  "fst (get_session_id E s) = Inr sid \<Longrightarrow> snd (get_session_id E s) = log (session_request s) s"
  by (simp add: get_session_id_def session_request_def Let_def
        split: sum.splits option.splits if_splits)

lemma get_session_id_ok_key:
  "fst (get_session_id E s) = Inr sid \<Longrightarrow> \<not> falsy (encrypted_api_key (self s))"
  by (simp add: get_session_id_def split: if_splits)

lemma generate_encrypted_key_error:
  "fst (generate_encrypted_key E b s) = Inl e \<Longrightarrow> e = AuthenticationError"
  by (auto simp add: generate_encrypted_key_def
        split: sum.splits option.splits prod.splits json.splits if_splits)

lemma generate_encrypted_key_ok:
  assumes "generate_encrypted_key E True s = (Inr key, s')"
  shows "\<exists>keys p sid. auth_keys (self s) = Some keys
           \<and> getitem keys ''public_key'' = Some (JStr p)
           \<and> get_session_id E s = (Inr (JStr sid), log (session_request s) s)
           \<and> rsa_encrypt E (trace s @ [session_request s]) p sid = Inr key
           \<and> s' = log (Encrypt p sid) (log (session_request s) s)"
proof -
  from assms obtain keys pub api where k: "auth_keys (self s) = Some keys"
      "getitem keys ''public_key'' = Some pub" "getitem keys ''api_key'' = Some api"
    by (auto simp add: generate_encrypted_key_def split: option.splits)
  from assms k obtain raw s1 where g: "get_session_id E s = (Inr raw, s1)"
    by (auto simp add: generate_encrypted_key_def split: sum.splits prod.splits)
  then have s1: "s1 = log (session_request s) s"
    using get_session_id_sent [of E s raw] by simp
  from assms k g obtain p sid where ps: "pub = JStr p" "raw = JStr sid"
    by (auto simp add: generate_encrypted_key_def split: json.splits)
  from assms k g ps s1 have "rsa_encrypt E (trace s @ [session_request s]) p sid = Inr key"
      "s' = log (Encrypt p sid) s1"
    by (auto simp add: generate_encrypted_key_def log_def split: sum.splits)
  with k g ps s1 show ?thesis by simp
qed

lemma generate_encrypted_key_state:
  "snd (generate_encrypted_key E True s) = s
   \<or> (\<not> falsy (encrypted_api_key (self s))
       \<and> (snd (generate_encrypted_key E True s) = log (session_request s) s
          \<or> (\<exists>p sid. snd (generate_encrypted_key E True s)
                        = log (Encrypt p sid) (log (session_request s) s)
                     \<and> fst (get_session_id E s) = Inr (JStr sid))))"
proof (cases "get_session_id E s")
  case (Pair r s1)
  have s1: "s1 = s \<or> (\<not> falsy (encrypted_api_key (self s)) \<and> s1 = log (session_request s) s)"
    using get_session_id_state [of E s] Pair by (simp split: if_splits)
  show ?thesis
  proof (cases r)
    case (Inl e)
    with Pair s1 show ?thesis
      by (auto simp add: generate_encrypted_key_def split: option.splits)
  next
    case (Inr raw)
    with Pair have s1': "s1 = log (session_request s) s"
        "\<not> falsy (encrypted_api_key (self s))"
      using get_session_id_sent [of E s raw] get_session_id_ok_key [of E s raw] by simp_all
    from Pair Inr s1' show ?thesis
      by (auto simp add: generate_encrypted_key_def
            split: option.splits json.splits sum.splits)
  qed
qed

lemma generate_encrypted_key_self: "self (snd (generate_encrypted_key E True s)) = self s"
  using generate_encrypted_key_state [of E s] by (auto simp add: log_def)

lemma generate_encrypted_key_plain_self:
  "self (snd (generate_encrypted_key E False s)) = self s"
  by (auto simp add: generate_encrypted_key_def log_def
        split: option.splits json.splits sum.splits)

lemma default_headers_given:
  "\<not> falsy auth_key \<Longrightarrow>
     default_headers E auth_key s = (Inr (headers_dict (self s) (the auth_key)), s)"
  by (simp add: default_headers_def)

lemma default_headers_session:
  "falsy auth_key \<Longrightarrow>
     default_headers E auth_key s =
       (case generate_encrypted_key E True s of
          (Inl e, s1) \<Rightarrow> (Inl AuthenticationError, s1)
        | (Inr k, s1) \<Rightarrow> (Inr (headers_dict (self s) k), s1))"
  using generate_encrypted_key_error [of E True s] generate_encrypted_key_self [of E s]
  by (auto simp add: default_headers_def split: prod.splits sum.splits)

lemma default_headers_self: "self (snd (default_headers E auth_key s)) = self s"
  using generate_encrypted_key_self [of E s]
  by (cases "falsy auth_key")
     (auto simp add: default_headers_given default_headers_session
        split: prod.splits sum.splits)

lemma default_headers_error:
  "fst (default_headers E auth_key s) = Inl e \<Longrightarrow> e = AuthenticationError"
  by (cases "falsy auth_key")
     (auto simp add: default_headers_given default_headers_session
        split: prod.splits sum.splits)

lemma default_headers_ok:
  assumes "falsy auth_key" and "default_headers E auth_key s = (Inr h, s')"
  shows "\<exists>keys p sid key. auth_keys (self s) = Some keys
           \<and> getitem keys ''public_key'' = Some (JStr p)
           \<and> get_session_id E s = (Inr (JStr sid), log (session_request s) s)
           \<and> rsa_encrypt E (trace s @ [session_request s]) p sid = Inr key
           \<and> s' = log (Encrypt p sid) (log (session_request s) s)
           \<and> h = headers_dict (self s) key"
proof -
  from assms obtain key where g: "generate_encrypted_key E True s = (Inr key, s')"
      and h: "h = headers_dict (self s) key"
    by (auto simp add: default_headers_session split: prod.splits sum.splits)
  from generate_encrypted_key_ok [OF g] h show ?thesis by blast
qed

lemma default_headers_state:
  assumes "falsy auth_key"
  shows "snd (default_headers E auth_key s) = s
   \<or> (\<not> falsy (encrypted_api_key (self s))
       \<and> (snd (default_headers E auth_key s) = log (session_request s) s
          \<or> (\<exists>p sid. snd (default_headers E auth_key s)
                        = log (Encrypt p sid) (log (session_request s) s)
                     \<and> fst (get_session_id E s) = Inr (JStr sid))))"
proof -
  have "snd (default_headers E auth_key s) = snd (generate_encrypted_key E True s)"
    using assms by (simp add: default_headers_session split: prod.splits sum.splits)
  then show ?thesis using generate_encrypted_key_state [of E s] by simp
qed

lemma post_query_self: "self (snd (post_query E url q s)) = self s"
  using default_headers_self [of E "Some []" s]
  by (auto simp add: post_query_def log_def split: sum.split prod.split)

lemma dispatch_self: "self (snd (dispatch k E q s)) = self s"
  by (simp add: dispatch_verify post_query_self split: sum.split)

lemma new_events_log [simp]: "new_events s (log ev s) = [ev]"
  by (simp add: new_events_def log_def)

lemma new_events_log2 [simp]: "new_events s (log ev2 (log ev1 s)) = [ev1, ev2]"
  by (simp add: new_events_def log_def)

lemma new_events_log3 [simp]: "new_events s (log ev3 (log ev2 (log ev1 s))) = [ev1, ev2, ev3]"
  by (simp add: new_events_def log_def)

lemma new_events_same [simp]: "new_events s s = []"
  by (simp add: new_events_def)

text \<open>
  The events of one \<^verbatim>\<open>try\<close> statement of a transaction method: nothing, or the session
  request, or the session request and the encryption of the session id it returned,
  or these two and the POST.
\<close>

lemma post_query_events:
  "new_events s (snd (post_query E url q s)) = []
   \<or> (\<not> falsy (encrypted_api_key (self s))
       \<and> (new_events s (snd (post_query E url q s)) = [session_request s]
          \<or> (\<exists>p sid. fst (get_session_id E s) = Inr (JStr sid)
                \<and> (new_events s (snd (post_query E url q s))
                      = [session_request s, Encrypt p sid]
                   \<or> (\<exists>key. new_events s (snd (post_query E url q s))
                        = [session_request s, Encrypt p sid,
                           Post url q (headers_dict (self s) key)])))))"
proof (cases "default_headers E (Some []) s")
  case (Pair r s1)
  have f: "falsy (Some [])" by (simp add: falsy_def)
  show ?thesis
  proof (cases r)
    case (Inl e)
    with Pair have "snd (post_query E url q s) = s1" by (simp add: post_query_def)
    moreover have "s1 = snd (default_headers E (Some []) s)" using Pair by simp
    ultimately show ?thesis using default_headers_state [OF f, of E s] by auto
  next
    case (Inr h)
    with Pair default_headers_ok [OF f, of E s h s1]
    obtain p sid key where *: "get_session_id E s = (Inr (JStr sid), log (session_request s) s)"
        "s1 = log (Encrypt p sid) (log (session_request s) s)" "h = headers_dict (self s) key"
      by blast
    from Pair Inr have "snd (post_query E url q s) = log (Post url q h) s1"
      by (simp add: post_query_def split: sum.splits)
    with * get_session_id_ok_key [of E s "JStr sid"] show ?thesis by auto
  qed
qed

lemma dispatch_events:
  "new_events s (snd (dispatch k E q s)) = []
   \<or> (\<not> falsy (encrypted_api_key (self s))
       \<and> (new_events s (snd (dispatch k E q s)) = [session_request s]
          \<or> (\<exists>p sid. fst (get_session_id E s) = Inr (JStr sid)
                \<and> (new_events s (snd (dispatch k E q s))
                      = [session_request s, Encrypt p sid]
                   \<or> (\<exists>key. new_events s (snd (dispatch k E q s))
                        = [session_request s, Encrypt p sid,
                           Post (endpoint k (urls (self s))) q (headers_dict (self s) key)])))))"
proof (cases "verify_query q (required_fields k)")
  case (Inl e)
  then show ?thesis by (simp add: dispatch_verify)
next
  case (Inr b)
  then have "dispatch k E q s = post_query E (endpoint k (urls (self s))) q s"
    by (simp add: dispatch_verify)
  then show ?thesis using post_query_events [of s E "endpoint k (urls (self s))" q] by simp
qed

section \<open>Construction, case by case\<close>

lemma generate_encrypted_key_plain_ok:
  assumes "generate_encrypted_key E False s = (Inr k, s')"
  shows "\<exists>keys p a. auth_keys (self s) = Some keys
           \<and> getitem keys ''public_key'' = Some (JStr p)
           \<and> getitem keys ''api_key'' = Some (JStr a)
           \<and> rsa_encrypt E (trace s) p a = Inr k
           \<and> s' = log (Encrypt p a) s"
proof -
  from assms obtain keys pub api where k: "auth_keys (self s) = Some keys"
      "getitem keys ''public_key'' = Some pub" "getitem keys ''api_key'' = Some api"
    by (auto simp add: generate_encrypted_key_def split: option.splits)
  from assms k obtain p a where ps: "pub = JStr p" "api = JStr a"
    by (auto simp add: generate_encrypted_key_def split: json.splits)
  from assms k ps have "rsa_encrypt E (trace s) p a = Inr k" "s' = log (Encrypt p a) s"
    by (auto simp add: generate_encrypted_key_def split: sum.splits)
  with k ps show ?thesis by simp
qed

lemma generate_encrypted_key_plain_value:
  assumes "auth_keys (self s) = Some keys"
      and "getitem keys ''public_key'' = Some (JStr p)"
      and "getitem keys ''api_key'' = Some (JStr a)"
  shows "generate_encrypted_key E False s =
           (case rsa_encrypt E (trace s) p a of
              Inl e \<Rightarrow> (Inl AuthenticationError, log (Encrypt p a) s)
            | Inr k \<Rightarrow> (Inr k, log (Encrypt p a) s))"
  using assms by (simp add: generate_encrypted_key_def)

lemma getitem_truthy: "getitem keys k = Some v \<Longrightarrow> truthy keys"
  by (cases keys) auto

lemma authenticated_urls: "urls (self (snd (authenticated E s))) = urls (self s)"
proof -
  have "urls (self (snd (generate_encrypted_key E False s1))) = urls (self s1)" for s1
    by (simp add: generate_encrypted_key_plain_self)
  then show ?thesis
    by (auto simp add: authenticated_def log_def Let_def
          split: sum.splits prod.splits dest!: arg_cong [where f = snd])
qed

lemma Mpesa_init_listdir_error:
  "os_listdir E tr = Inl e \<Longrightarrow> Mpesa_init E path environment tr = (Inl e, tr @ [Listdir])"
  by (simp add: Mpesa_init_def authenticated_def log_def)

lemma Mpesa_init_not_listed:
  "os_listdir E tr = Inr names \<Longrightarrow> path \<notin> set names \<Longrightarrow>
     Mpesa_init E path environment tr = (Inl FileNotFoundError, tr @ [Listdir])"
  by (simp add: Mpesa_init_def authenticated_def log_def)

lemma Mpesa_init_load_error:
  "os_listdir E tr = Inr names \<Longrightarrow> path \<in> set names \<Longrightarrow>
   load_json E (tr @ [Listdir]) path = Inl e \<Longrightarrow>
     Mpesa_init E path environment tr =
       (Inl (if e = FileNotFoundError then FileNotFoundError else LoadingKeyError),
        tr @ [Listdir, OpenRead path])"
  by (simp add: Mpesa_init_def authenticated_def load_keys_def log_def)

lemma Mpesa_init_ok:
  assumes "os_listdir E tr = Inr names" and "path \<in> set names"
      and "load_json E (tr @ [Listdir]) path = Inr keys"
      and "getitem keys ''public_key'' = Some (JStr p)"
      and "getitem keys ''api_key'' = Some (JStr a)"
      and "rsa_encrypt E (tr @ [Listdir, OpenRead path]) p a = Inr k" and "k \<noteq> []"
  shows "Mpesa_init E path environment tr =
           (Inr \<lparr>auth_path = path, auth_keys = Some keys, encrypted_api_key = Some k,
                 origin_ip = ''*'',
                 urls = (if environment = ''production'' then production E else sandbox E)\<rparr>,
            tr @ [Listdir, OpenRead path, Encrypt p a])"
  using assms getitem_truthy [OF assms(4)]
  by (simp add: Mpesa_init_def authenticated_def load_keys_def log_def Let_def
        generate_encrypted_key_plain_value [where keys = keys and p = p and a = a])

lemma Mpesa_init_client:
  assumes "Mpesa_init E path environment tr = (Inr c, tr')"
  shows "\<exists>names keys p a k.
           os_listdir E tr = Inr names \<and> path \<in> set names
           \<and> load_json E (tr @ [Listdir]) path = Inr keys
           \<and> getitem keys ''public_key'' = Some (JStr p)
           \<and> getitem keys ''api_key'' = Some (JStr a)
           \<and> rsa_encrypt E (tr @ [Listdir, OpenRead path]) p a = Inr k \<and> k \<noteq> []
           \<and> c = \<lparr>auth_path = path, auth_keys = Some keys, encrypted_api_key = Some k,
                   origin_ip = ''*'',
                   urls = (if environment = ''production'' then production E
                           else sandbox E)\<rparr>
           \<and> tr' = tr @ [Listdir, OpenRead path, Encrypt p a]"
proof -
  define u where "u = (if environment = ''production'' then production E else sandbox E)"
  define s0 where "s0 = \<lparr>self = \<lparr>auth_path = path, auth_keys = None, encrypted_api_key = None,
                         origin_ip = ''*'', urls = u\<rparr>, trace = tr\<rparr>"
  from assms obtain s where a: "authenticated E s0 = (Inr True, s)" and c: "c = self s"
      and t: "tr' = trace s"
    by (auto simp add: Mpesa_init_def s0_def u_def Let_def
          split: prod.splits sum.splits if_splits)
  from a obtain names where n: "os_listdir E tr = Inr names" "path \<in> set names"
    by (auto simp add: authenticated_def s0_def split: sum.splits if_splits)
  from a n obtain keys where l: "load_json E (tr @ [Listdir]) path = Inr keys"
    by (auto simp add: authenticated_def load_keys_def s0_def
          split: sum.splits if_splits)
  define s1 where "s1 = \<lparr>self = \<lparr>auth_path = path, auth_keys = Some keys,
      encrypted_api_key = None, origin_ip = ''*'', urls = u\<rparr>,
      trace = tr @ [Listdir, OpenRead path]\<rparr>"
  from a n l obtain k s2 where g: "generate_encrypted_key E False s1 = (Inr k, s2)"
      and k: "k \<noteq> []" and s: "s = s2\<lparr>self := (self s2)\<lparr>encrypted_api_key := Some k\<rparr>\<rparr>"
    by (auto simp add: authenticated_def load_keys_def s0_def s1_def Let_def
          split: sum.splits prod.splits if_splits)
  from generate_encrypted_key_plain_ok [OF g] obtain p a where
      e: "getitem keys ''public_key'' = Some (JStr p)" "getitem keys ''api_key'' = Some (JStr a)"
         "rsa_encrypt E (tr @ [Listdir, OpenRead path]) p a = Inr k"
         "s2 = log (Encrypt p a) s1"
    by (auto simp add: s1_def)
  from c t s e(4) have "c = \<lparr>auth_path = path, auth_keys = Some keys,
      encrypted_api_key = Some k, origin_ip = ''*'', urls = u\<rparr>"
      "tr' = tr @ [Listdir, OpenRead path, Encrypt p a]"
    by (simp_all add: s1_def log_def)
  with n l e k show ?thesis unfolding u_def by blast
qed

lemma Mpesa_init_error_kinds:
  assumes "os_listdir E tr = Inr names" and "path \<in> set names"
      and "load_json E (tr @ [Listdir]) path = Inr keys"
      and "Mpesa_init E path environment tr = (Inl e, tr')"
  shows "e = AuthenticationError"
proof -
  have g: "generate_encrypted_key E False s1 = (Inl x, s2) \<Longrightarrow> x = AuthenticationError"
    for s1 s2 x using generate_encrypted_key_error [of E False s1 x] by simp
  from assms show ?thesis
    by (auto simp add: Mpesa_init_def authenticated_def load_keys_def log_def Let_def
          split: sum.splits prod.splits if_splits dest: g)
qed

section \<open>Missing fields\<close>

text \<open>
  Claim C2. For each of the five transaction methods and every query that lacks at
  least one of the method's required fields, the call raises the \<^verbatim>\<open>KeyError\<close> (the
  specification's \<^verbatim>\<open>MissingFieldsError\<close>) that carries exactly the required fields
  that are not keys of the query, and sends nothing: the object and the log of events
  are as before the call.
\<close>

theorem missing_fields_rejected:
  "required_fields k - set (map fst q) \<noteq> {} \<Longrightarrow>
     dispatch k E q s = (Inl (KeyError (required_fields k - set (map fst q))), s)
     \<and> new_events s (snd (dispatch k E q s)) = []"
  by (simp add: dispatch_verify verify_query_def Let_def)

theorem missing_fields_rejected_witness:
  "dispatch Reversal example_env [(''input_Country'', JStr ''TZN''), (''note'', JInt 1)]
       example_state =
     (Inl (KeyError {''input_ReversalAmount'', ''input_ServiceProviderCode'',
                     ''input_ThirdPartyConversationID'', ''input_TransactionID''}),
      example_state)"
proof -
  have d: "required_fields Reversal
             - set (map fst [(''input_Country'', JStr ''TZN''), (''note'', JInt 1)])
           = {''input_ReversalAmount'', ''input_ServiceProviderCode'',
              ''input_ThirdPartyConversationID'', ''input_TransactionID''}"
    by (simp add: reversal_required_fields_def insert_Diff_if)
  have "required_fields Reversal
          - set (map fst [(''input_Country'', JStr ''TZN''), (''note'', JInt 1)]) \<noteq> {}"
    unfolding d by simp
  from missing_fields_rejected [OF this, of example_env example_state] show ?thesis
    unfolding d by simp
qed

section \<open>The session id\<close>

text \<open>
  Claim C5. On a client with a stored encrypted API key, \<^verbatim>\<open>get_session_id\<close> sends one
  GET to the session endpoint. It raises \<^verbatim>\<open>AuthenticationError\<close> when the request fails,
  when the body does not parse, when one of the fields \<^verbatim>\<open>output_SessionID\<close>,
  \<^verbatim>\<open>output_ResponseCode\<close>, \<^verbatim>\<open>output_ResponseDesc\<close> is missing, and when the response
  code is \<^verbatim>\<open>INS-989\<close>, also with a session id in the response; in every other case it
  returns the value of \<^verbatim>\<open>output_SessionID\<close>.
\<close>

theorem get_session_id_contract:
  assumes "encrypted_api_key (self s) = Some key" and "key \<noteq> []"
  shows "(\<forall>e. requests_get E (trace s) (session_id (urls (self s))) (headers_dict (self s) key)
               = Inl e
            \<longrightarrow> fst (get_session_id E s) = Inl AuthenticationError)
       \<and> (\<forall>e. requests_get E (trace s) (session_id (urls (self s))) (headers_dict (self s) key)
               = Inr (Inl e)
            \<longrightarrow> fst (get_session_id E s) = Inl AuthenticationError)
       \<and> (\<forall>response.
            requests_get E (trace s) (session_id (urls (self s))) (headers_dict (self s) key)
               = Inr (Inr response)
            \<longrightarrow> (getitem response ''output_ResponseCode'' = Some (JStr ''INS-989'')
                   \<longrightarrow> fst (get_session_id E s) = Inl AuthenticationError)
               \<and> (getitem response ''output_SessionID'' = None
                    \<or> getitem response ''output_ResponseCode'' = None
                    \<or> getitem response ''output_ResponseDesc'' = None
                   \<longrightarrow> fst (get_session_id E s) = Inl AuthenticationError)
               \<and> (\<forall>sid code desc.
                     getitem response ''output_SessionID'' = Some sid
                     \<and> getitem response ''output_ResponseCode'' = Some code
                     \<and> getitem response ''output_ResponseDesc'' = Some desc
                     \<and> code \<noteq> JStr ''INS-989''
                   \<longrightarrow> fst (get_session_id E s) = Inr sid))"
  using assms
  by (auto simp add: get_session_id_def falsy_def Let_def split: option.splits)

theorem get_session_id_contract_witness:
  "fst (get_session_id example_env example_state) = Inr (JStr ''SID'')
   \<and> fst (get_session_id rejecting_env example_state) = Inl AuthenticationError
   \<and> fst (get_session_id offline_env example_state) = Inl AuthenticationError"
proof -
  have k: "encrypted_api_key (self example_state) = Some ''enc:APIKEY''" "''enc:APIKEY'' \<noteq> []"
    by (simp_all add: example_state_def example_client_def)
  have "fst (get_session_id example_env example_state) = Inr (JStr ''SID'')"
    using get_session_id_contract [OF k, of example_env]
    by (simp add: example_env_def example_session_def)
  moreover have "fst (get_session_id rejecting_env example_state) = Inl AuthenticationError"
    using get_session_id_contract [OF k, of rejecting_env]
    by (simp add: rejecting_env_def example_env_def rejected_session_def)
  moreover have "fst (get_session_id offline_env example_state) = Inl AuthenticationError"
    using get_session_id_contract [OF k, of offline_env]
    by (simp add: offline_env_def example_env_def)
  ultimately show ?thesis by simp
qed

section \<open>Headers\<close>




section \<open>Construction\<close>

text \<open>
  Claim C1, as the code has it. Construction either raises or returns a fully
  authenticated client. It raises what \<^verbatim>\<open>os.listdir\<close> raises; \<^verbatim>\<open>FileNotFoundError\<close>
  when the locator is not in the listing of the working directory, or when opening
  the file reports it missing; \<^verbatim>\<open>LoadingKeyError\<close> when reading or parsing the key
  store fails in any other way; and \<^verbatim>\<open>AuthenticationError\<close> when the loaded
  credentials are false in Python's sense, or when the first encryption of the API key
  fails or gives an empty key. In the one remaining case it returns the client with the
  loaded credentials and the encrypted API key.
\<close>

theorem construction_fails_or_authenticates:
  "(\<forall>c tr'. Mpesa_init E path environment tr = (Inr c, tr') \<longrightarrow> fully_authenticated c)
   \<and> (\<forall>e. os_listdir E tr = Inl e \<longrightarrow> fst (Mpesa_init E path environment tr) = Inl e)
   \<and> (\<forall>names. os_listdir E tr = Inr names \<longrightarrow>
        (path \<notin> set names \<longrightarrow>
           fst (Mpesa_init E path environment tr) = Inl FileNotFoundError)
        \<and> (path \<in> set names \<longrightarrow>
             (load_json E (tr @ [Listdir]) path = Inl FileNotFoundError \<longrightarrow>
                fst (Mpesa_init E path environment tr) = Inl FileNotFoundError)
             \<and> (\<forall>e. load_json E (tr @ [Listdir]) path = Inl e \<and> e \<noteq> FileNotFoundError \<longrightarrow>
                    fst (Mpesa_init E path environment tr) = Inl LoadingKeyError)
             \<and> (\<forall>keys. load_json E (tr @ [Listdir]) path = Inr keys \<longrightarrow>
                  (\<not> truthy keys \<longrightarrow>
                     fst (Mpesa_init E path environment tr) = Inl AuthenticationError)
                  \<and> ((\<nexists>p a k. getitem keys ''public_key'' = Some (JStr p)
                              \<and> getitem keys ''api_key'' = Some (JStr a)
                              \<and> rsa_encrypt E (tr @ [Listdir, OpenRead path]) p a = Inr k
                              \<and> k \<noteq> []) \<longrightarrow>
                       fst (Mpesa_init E path environment tr) = Inl AuthenticationError)
                  \<and> (\<forall>p a k. getitem keys ''public_key'' = Some (JStr p)
                              \<and> getitem keys ''api_key'' = Some (JStr a)
                              \<and> rsa_encrypt E (tr @ [Listdir, OpenRead path]) p a = Inr k
                              \<and> k \<noteq> [] \<longrightarrow>
                       fst (Mpesa_init E path environment tr) =
                         Inr \<lparr>auth_path = path, auth_keys = Some keys,
                              encrypted_api_key = Some k, origin_ip = ''*'',
                              urls = (if environment = ''production'' then production E
                                      else sandbox E)\<rparr>))))"
proof -
  have 1: "fully_authenticated c" if "Mpesa_init E path environment tr = (Inr c, tr')" for c tr'
    using Mpesa_init_client [OF that]
    by (auto simp add: fully_authenticated_def falsy_def dest: getitem_truthy)
  have 2: "fst (Mpesa_init E path environment tr) = Inl e" if "os_listdir E tr = Inl e" for e
    using Mpesa_init_listdir_error [OF that] by simp
  have 3: "fst (Mpesa_init E path environment tr) = Inl FileNotFoundError"
    if "os_listdir E tr = Inr names" "path \<notin> set names" for names
    using Mpesa_init_not_listed [OF that] by simp
  have 4: "fst (Mpesa_init E path environment tr)
             = Inl (if e = FileNotFoundError then FileNotFoundError else LoadingKeyError)"
    if "os_listdir E tr = Inr names" "path \<in> set names"
       "load_json E (tr @ [Listdir]) path = Inl e" for names e
    using Mpesa_init_load_error [OF that] by simp
  have 5: "fst (Mpesa_init E path environment tr) = Inl AuthenticationError"
    if n: "os_listdir E tr = Inr names" "path \<in> set names"
       "load_json E (tr @ [Listdir]) path = Inr keys"
      and no: "\<nexists>p a k. getitem keys ''public_key'' = Some (JStr p)
                 \<and> getitem keys ''api_key'' = Some (JStr a)
                 \<and> rsa_encrypt E (tr @ [Listdir, OpenRead path]) p a = Inr k \<and> k \<noteq> []"
    for names keys
  proof (cases "Mpesa_init E path environment tr")
    case (Pair r tr')
    show ?thesis
    proof (cases r)
      case (Inl e)
      with Pair Mpesa_init_error_kinds [OF n, of environment e tr'] show ?thesis by simp
    next
      case (Inr c)
      with Pair Mpesa_init_client [of E path environment tr c tr'] n no show ?thesis
        by auto
    qed
  qed
  have 6: "fst (Mpesa_init E path environment tr) = Inl AuthenticationError"
    if "os_listdir E tr = Inr names" "path \<in> set names"
       "load_json E (tr @ [Listdir]) path = Inr keys" "\<not> truthy keys" for names keys
    using 5 [OF that(1,2,3)] that(4) getitem_truthy [of keys "''public_key''"] by blast
  have 7: "fst (Mpesa_init E path environment tr) =
             Inr \<lparr>auth_path = path, auth_keys = Some keys, encrypted_api_key = Some k,
                  origin_ip = ''*'',
                  urls = (if environment = ''production'' then production E else sandbox E)\<rparr>"
    if "os_listdir E tr = Inr names" "path \<in> set names"
       "load_json E (tr @ [Listdir]) path = Inr keys"
       "getitem keys ''public_key'' = Some (JStr p)" "getitem keys ''api_key'' = Some (JStr a)"
       "rsa_encrypt E (tr @ [Listdir, OpenRead path]) p a = Inr k" "k \<noteq> []"
    for names keys p a k
    using Mpesa_init_ok [OF that, of environment] by simp
  show ?thesis
    apply (intro conjI allI impI)
    subgoal by (rule 1)
    subgoal by (rule 2)
    subgoal by (rule 3)
    subgoal using 4 by simp
    subgoal using 4 by auto
    subgoal by (rule 6)
    subgoal by (rule 5)
    subgoal by (elim conjE) (rule 7)
    done
qed

lemma example_init:
  "Mpesa_init example_env ''keys.json'' ''testing'' [] =
     (Inr example_client, [Listdir, OpenRead ''keys.json'', Encrypt ''PUBKEY'' ''APIKEY''])"
  by (simp add: Mpesa_init_def authenticated_def load_keys_def generate_encrypted_key_def
        example_env_def example_keys_def example_client_def log_def Let_def)

theorem construction_fails_or_authenticates_witness:
  "fully_authenticated example_client
   \<and> fst (Mpesa_init empty_dir_env ''keys.json'' ''testing'' []) = Inl FileNotFoundError
   \<and> fst (Mpesa_init unparsable_env ''keys.json'' ''testing'' []) = Inl LoadingKeyError
   \<and> fst (Mpesa_init empty_keys_env ''keys.json'' ''testing'' []) = Inl AuthenticationError"
proof -
  have "fully_authenticated example_client"
    using construction_fails_or_authenticates [of example_env "''keys.json''" "''testing''" "[]"]
      example_init by blast
  moreover have "fst (Mpesa_init empty_dir_env ''keys.json'' ''testing'' [])
      = Inl FileNotFoundError"
    using construction_fails_or_authenticates [of empty_dir_env "''keys.json''" "''testing''" "[]"]
    by (simp add: empty_dir_env_def example_env_def)
  moreover have "fst (Mpesa_init unparsable_env ''keys.json'' ''testing'' [])
      = Inl LoadingKeyError"
    using construction_fails_or_authenticates [of unparsable_env "''keys.json''" "''testing''" "[]"]
    by (simp add: unparsable_env_def example_env_def)
  moreover have "fst (Mpesa_init empty_keys_env ''keys.json'' ''testing'' [])
      = Inl AuthenticationError"
    using construction_fails_or_authenticates [of empty_keys_env "''keys.json''" "''testing''" "[]"]
    by (simp add: empty_keys_env_def example_env_def)
  ultimately show ?thesis by simp
qed

text \<open>
  Claim C1 as the specification states it fails: with an empty working directory, and
  with a key store that does not parse, the credentials cannot be loaded, and
  construction raises \<^verbatim>\<open>FileNotFoundError\<close> and \<^verbatim>\<open>LoadingKeyError\<close>, not
  \<^verbatim>\<open>AuthenticationError\<close>.
\<close>

theorem construction_error_counterexample:
  "Mpesa_init empty_dir_env ''keys.json'' ''testing'' [] = (Inl FileNotFoundError, [Listdir])
   \<and> fst (Mpesa_init empty_dir_env ''keys.json'' ''testing'' []) \<noteq> Inl AuthenticationError
   \<and> Mpesa_init unparsable_env ''keys.json'' ''testing'' []
       = (Inl LoadingKeyError, [Listdir, OpenRead ''keys.json''])
   \<and> fst (Mpesa_init unparsable_env ''keys.json'' ''testing'' []) \<noteq> Inl AuthenticationError"
  by (simp add: Mpesa_init_def authenticated_def load_keys_def log_def
        empty_dir_env_def unparsable_env_def example_env_def)

text \<open>
  Claim C10. Construction looks for the locator among the names that \<^verbatim>\<open>os.listdir()\<close>
  returns for the working directory, and opens nothing when it is not there. The names
  of a listing hold no directory separator, so a locator with a separator in it is
  never found: construction raises \<^verbatim>\<open>FileNotFoundError\<close> after the listing alone,
  whatever opening that path would have given.
\<close>

theorem locator_with_separator_not_found:
  assumes "os_listdir E tr = Inr names"
  shows "(path \<notin> set names \<longrightarrow>
            Mpesa_init E path environment tr = (Inl FileNotFoundError, tr @ [Listdir]))
       \<and> ((\<forall>n \<in> set names. sep \<notin> set n) \<and> sep \<in> set path \<longrightarrow>
            Mpesa_init E path environment tr = (Inl FileNotFoundError, tr @ [Listdir]))"
  using Mpesa_init_not_listed [OF assms] by auto

theorem locator_with_separator_not_found_witness:
  "load_json example_env [Listdir] ''config/keys.json'' = Inr example_keys
   \<and> Mpesa_init example_env ''config/keys.json'' ''testing'' [] = (Inl FileNotFoundError, [Listdir])"
proof -
  have l: "os_listdir example_env [] = Inr [''config'', ''keys.json'']"
    by (simp add: example_env_def)
  have "Mpesa_init example_env ''config/keys.json'' ''testing'' []
          = (Inl FileNotFoundError, [] @ [Listdir])"
    using locator_with_separator_not_found
      [OF l, of "''config/keys.json''" "''testing''" "CHR ''/''"]
    by simp
  then show ?thesis by (simp add: example_env_def)
qed

section \<open>The URL table\<close>

text \<open>
  Claim C8. The client's URL table is chosen at construction: the production table
  when the environment string is \<^verbatim>\<open>production\<close>, the sandbox table for every other
  string. Whenever the key store is listed, loads, and its API key encrypts to a key
  that is not empty, construction returns the client, and that client holds the table
  so chosen. No method of the client assigns it afterwards: the origin setter, the
  session request, the header builder, the five transaction methods and a later
  evaluation of \<^verbatim>\<open>authenticated\<close> all leave it as it is.
\<close>

theorem urls_resolved_at_construction:
  "(\<forall>c tr'. Mpesa_init E path environment tr = (Inr c, tr') \<longrightarrow>
       urls c = (if environment = ''production'' then production E else sandbox E))
   \<and> (\<forall>names keys p a key.
         os_listdir E tr = Inr names \<and> path \<in> set names
         \<and> load_json E (tr @ [Listdir]) path = Inr keys
         \<and> getitem keys ''public_key'' = Some (JStr p)
         \<and> getitem keys ''api_key'' = Some (JStr a)
         \<and> rsa_encrypt E (tr @ [Listdir, OpenRead path]) p a = Inr key \<and> key \<noteq> [] \<longrightarrow>
         Mpesa_init E path environment tr =
           (Inr \<lparr>auth_path = path, auth_keys = Some keys, encrypted_api_key = Some key,
                 origin_ip = ''*'',
                 urls = (if environment = ''production'' then production E else sandbox E)\<rparr>,
            tr @ [Listdir, OpenRead path, Encrypt p a]))
   \<and> urls (snd (set_origin_address v c0)) = urls c0
   \<and> urls (self (snd (get_session_id E s))) = urls (self s)
   \<and> urls (self (snd (default_headers E auth_key s))) = urls (self s)
   \<and> urls (self (snd (dispatch k E q s))) = urls (self s)
   \<and> urls (self (snd (authenticated E s))) = urls (self s)"
proof -
  have "urls c = (if environment = ''production'' then production E else sandbox E)"
    if "Mpesa_init E path environment tr = (Inr c, tr')" for c tr'
    using Mpesa_init_client [OF that] by auto
  moreover have "Mpesa_init E path environment tr =
           (Inr \<lparr>auth_path = path, auth_keys = Some keys, encrypted_api_key = Some key,
                 origin_ip = ''*'',
                 urls = (if environment = ''production'' then production E else sandbox E)\<rparr>,
            tr @ [Listdir, OpenRead path, Encrypt p a])"
    if "os_listdir E tr = Inr names" "path \<in> set names"
       "load_json E (tr @ [Listdir]) path = Inr keys"
       "getitem keys ''public_key'' = Some (JStr p)" "getitem keys ''api_key'' = Some (JStr a)"
       "rsa_encrypt E (tr @ [Listdir, OpenRead path]) p a = Inr key" "key \<noteq> []"
    for names keys p a key
    using Mpesa_init_ok [OF that, of environment] .
  moreover have "urls (snd (set_origin_address v c0)) = urls c0"
    by (simp add: set_origin_address_def split: json.split)
  ultimately show ?thesis
    by (simp add: get_session_id_self default_headers_self dispatch_self authenticated_urls)
qed

lemma production_init:
  "Mpesa_init example_env ''keys.json'' ''production'' [] =
     (Inr (example_client\<lparr>urls := example_production\<rparr>),
      [Listdir, OpenRead ''keys.json'', Encrypt ''PUBKEY'' ''APIKEY''])"
  by (simp add: Mpesa_init_def authenticated_def load_keys_def generate_encrypted_key_def
        example_env_def example_keys_def example_client_def log_def Let_def)

theorem urls_resolved_at_construction_witness:
  "Mpesa_init example_env ''keys.json'' ''production'' [] =
     (Inr \<lparr>auth_path = ''keys.json'', auth_keys = Some example_keys,
           encrypted_api_key = Some ''enc:APIKEY'', origin_ip = ''*'',
           urls = example_production\<rparr>,
      [Listdir, OpenRead ''keys.json'', Encrypt ''PUBKEY'' ''APIKEY''])
   \<and> Mpesa_init example_env ''keys.json'' ''testing'' [] =
     (Inr \<lparr>auth_path = ''keys.json'', auth_keys = Some example_keys,
           encrypted_api_key = Some ''enc:APIKEY'', origin_ip = ''*'',
           urls = example_sandbox\<rparr>,
      [Listdir, OpenRead ''keys.json'', Encrypt ''PUBKEY'' ''APIKEY''])
   \<and> Mpesa_init example_env ''keys.json'' ''Production'' [] =
     (Inr \<lparr>auth_path = ''keys.json'', auth_keys = Some example_keys,
           encrypted_api_key = Some ''enc:APIKEY'', origin_ip = ''*'',
           urls = example_sandbox\<rparr>,
      [Listdir, OpenRead ''keys.json'', Encrypt ''PUBKEY'' ''APIKEY''])
   \<and> urls example_client = example_sandbox
   \<and> urls (example_client\<lparr>urls := example_production\<rparr>) = example_production
   \<and> urls (self (snd (dispatch Reversal example_env reversal_query example_state)))
       = example_sandbox"
proof -
  have o: "os_listdir example_env [] = Inr [''config'', ''keys.json'']"
      "''keys.json'' \<in> set [''config'', ''keys.json'']"
      "load_json example_env ([] @ [Listdir]) ''keys.json'' = Inr example_keys"
      "getitem example_keys ''public_key'' = Some (JStr ''PUBKEY'')"
      "getitem example_keys ''api_key'' = Some (JStr ''APIKEY'')"
      "rsa_encrypt example_env ([] @ [Listdir, OpenRead ''keys.json'']) ''PUBKEY'' ''APIKEY''
         = Inr ''enc:APIKEY''"
      "''enc:APIKEY'' \<noteq> []"
    by (simp_all add: example_env_def example_keys_def)
  have t: "production example_env = example_production" "sandbox example_env = example_sandbox"
    by (simp_all add: example_env_def)
  have 1: "Mpesa_init example_env ''keys.json'' ''production'' [] =
     (Inr \<lparr>auth_path = ''keys.json'', auth_keys = Some example_keys,
           encrypted_api_key = Some ''enc:APIKEY'', origin_ip = ''*'',
           urls = example_production\<rparr>,
      [Listdir, OpenRead ''keys.json'', Encrypt ''PUBKEY'' ''APIKEY''])"
    using urls_resolved_at_construction [of example_env "''keys.json''" "''production''" "[]"] o
    by (simp add: t)
  have 2: "Mpesa_init example_env ''keys.json'' ''testing'' [] =
     (Inr \<lparr>auth_path = ''keys.json'', auth_keys = Some example_keys,
           encrypted_api_key = Some ''enc:APIKEY'', origin_ip = ''*'',
           urls = example_sandbox\<rparr>,
      [Listdir, OpenRead ''keys.json'', Encrypt ''PUBKEY'' ''APIKEY''])"
    using urls_resolved_at_construction [of example_env "''keys.json''" "''testing''" "[]"] o
    by (simp add: t)
  have 3: "Mpesa_init example_env ''keys.json'' ''Production'' [] =
     (Inr \<lparr>auth_path = ''keys.json'', auth_keys = Some example_keys,
           encrypted_api_key = Some ''enc:APIKEY'', origin_ip = ''*'',
           urls = example_sandbox\<rparr>,
      [Listdir, OpenRead ''keys.json'', Encrypt ''PUBKEY'' ''APIKEY''])"
    using urls_resolved_at_construction [of example_env "''keys.json''" "''Production''" "[]"] o
    by (simp add: t)
  have 4: "urls (self (snd (dispatch Reversal example_env reversal_query example_state)))
          = urls (self example_state)"
    using urls_resolved_at_construction
      [of example_env "''keys.json''" "''testing''" "[]" JNull example_client example_state
          None Reversal reversal_query]
    by simp
  from 1 2 3 4 show ?thesis
    by (simp add: example_state_def example_client_def)
qed

section \<open>The state of the client\<close>

text \<open>
  Claim C9. A transaction call leaves the object as it was: \<^verbatim>\<open>auth_path\<close>, the loaded
  \<^verbatim>\<open>auth_keys\<close>, the stored encrypted API key, the origin address and the URL table.
  Every session request of the call carries the stored encrypted API key as its bearer
  token, and the only encryption of the call is that of the session id which that
  request returned: the API key is not encrypted again.
\<close>

theorem dispatch_frame:
  "self (snd (dispatch k E q s)) = self s
   \<and> (\<forall>(u, h) \<in> set (gets (new_events s (snd (dispatch k E q s)))).
        u = session_id (urls (self s))
        \<and> (\<exists>key. encrypted_api_key (self s) = Some key \<and> key \<noteq> []
              \<and> map_of h ''Authorization'' = Some (''Bearer '' @ key)))
   \<and> (\<forall>(p, r) \<in> set (encryptions (new_events s (snd (dispatch k E q s)))).
        fst (get_session_id E s) = Inr (JStr r))"
proof -
  have key: "\<not> falsy (encrypted_api_key (self s)) \<Longrightarrow>
      \<exists>key. encrypted_api_key (self s) = Some key \<and> key \<noteq> []
        \<and> map_of (headers_dict (self s) (the (encrypted_api_key (self s)))) ''Authorization''
            = Some (''Bearer '' @ key)"
    by (auto simp add: falsy_def headers_dict_def split: option.splits)
  from dispatch_events [of s k E q] key show ?thesis
    by (auto simp add: dispatch_self session_request_def)
qed

section \<open>A transaction call, event by event\<close>

lemma example_reversal:
  "dispatch Reversal example_env reversal_query example_state =
     (Inr example_reply,
      \<lparr>self = example_client,
       trace = [Get ''sandbox/getSession''
                  [(''Content-Type'', ''application/json''),
                   (''Authorization'', ''Bearer enc:APIKEY''),
                   (''Host'', ''openapi.m-pesa.com''), (''Origin'', ''*'')],
                Encrypt ''PUBKEY'' ''SID'',
                Post ''sandbox/reversal'' reversal_query
                  [(''Content-Type'', ''application/json''),
                   (''Authorization'', ''Bearer enc:SID''),
                   (''Host'', ''openapi.m-pesa.com''), (''Origin'', ''*'')]]\<rparr>)"
proof -
  have v: "verify_query reversal_query reversal_required_fields = Inr True"
    by (simp add: verify_query_def reversal_required_fields_def reversal_query_def Let_def)
  show ?thesis
    by (simp add: payment_reversal_call_def v post_query_def default_headers_def
          generate_encrypted_key_def get_session_id_def falsy_def headers_dict_def
          origin_address_def log_def Let_def example_env_def example_state_def
          example_client_def example_keys_def example_session_def example_sandbox_def)
qed

theorem dispatch_frame_witness:
  "self (snd (dispatch Reversal example_env reversal_query example_state)) = example_client
   \<and> gets (new_events example_state
             (snd (dispatch Reversal example_env reversal_query example_state)))
       = [(''sandbox/getSession'',
           [(''Content-Type'', ''application/json''),
            (''Authorization'', ''Bearer enc:APIKEY''),
            (''Host'', ''openapi.m-pesa.com''), (''Origin'', ''*'')])]
   \<and> encryptions (new_events example_state
                    (snd (dispatch Reversal example_env reversal_query example_state)))
       = [(''PUBKEY'', ''SID'')]
   \<and> fst (get_session_id example_env example_state) = Inr (JStr ''SID'')"
proof -
  note f = dispatch_frame [of Reversal example_env reversal_query example_state]
  have e: "new_events example_state
             (snd (dispatch Reversal example_env reversal_query example_state))
           = [Get ''sandbox/getSession''
                  [(''Content-Type'', ''application/json''),
                   (''Authorization'', ''Bearer enc:APIKEY''),
                   (''Host'', ''openapi.m-pesa.com''), (''Origin'', ''*'')],
              Encrypt ''PUBKEY'' ''SID'',
              Post ''sandbox/reversal'' reversal_query
                  [(''Content-Type'', ''application/json''),
                   (''Authorization'', ''Bearer enc:SID''),
                   (''Host'', ''openapi.m-pesa.com''), (''Origin'', ''*'')]]"
    by (simp only: example_reversal) (simp add: new_events_def example_state_def)
  from f have "self (snd (dispatch Reversal example_env reversal_query example_state))
      = self example_state" by blast
  moreover from f have "fst (get_session_id example_env example_state) = Inr (JStr ''SID'')"
    unfolding e by simp
  ultimately show ?thesis unfolding e by (simp add: example_state_def)
qed

section \<open>One POST\<close>

text \<open>
  Claim C4, as the code has it. For a query that holds all required fields of its
  kind, and any other fields: when the headers can be built, that is, the session id
  was fetched and encrypted, the call sends exactly one POST, to the URL of the kind,
  with the whole query as its body and those headers, and when that request answers
  with a body that parses, the call returns the parsed body as it is. When the headers
  cannot be built, the call raises \<^verbatim>\<open>AuthenticationError\<close> and sends no POST.
\<close>

theorem dispatch_posts_once:
  assumes "required_fields k \<subseteq> set (map fst q)"
  shows "(\<forall>h s1. default_headers E (Some []) s = (Inr h, s1) \<longrightarrow>
            posts (new_events s (snd (dispatch k E q s)))
              = [(endpoint k (urls (self s)), q, h)]
            \<and> (\<forall>body. requests_post E (trace s1) (endpoint k (urls (self s))) q h
                        = Inr (Inr body) \<longrightarrow>
                 fst (dispatch k E q s) = Inr body))
       \<and> (\<forall>e s1. default_headers E (Some []) s = (Inl e, s1) \<longrightarrow>
            dispatch k E q s = (Inl AuthenticationError, s1)
            \<and> posts (new_events s (snd (dispatch k E q s))) = [])"
proof -
  have f: "falsy (Some [])" by (simp add: falsy_def)
  from assms have d: "dispatch k E q s = post_query E (endpoint k (urls (self s))) q s"
    by (simp add: dispatch_verify verify_query_def Let_def)
  have ok: "posts (new_events s (snd (dispatch k E q s)))
              = [(endpoint k (urls (self s)), q, h)]
            \<and> (\<forall>body. requests_post E (trace s1) (endpoint k (urls (self s))) q h
                        = Inr (Inr body) \<longrightarrow>
                 fst (dispatch k E q s) = Inr body)"
    if h: "default_headers E (Some []) s = (Inr h, s1)" for h s1
  proof -
    from default_headers_ok [OF f h] obtain p sid where
        s1: "s1 = log (Encrypt p sid) (log (session_request s) s)" by blast
    from h have "snd (dispatch k E q s) = log (Post (endpoint k (urls (self s))) q h) s1"
      by (simp add: d post_query_def split: sum.splits)
    then have "posts (new_events s (snd (dispatch k E q s)))
                 = [(endpoint k (urls (self s)), q, h)]"
      by (simp add: s1 session_request_def)
    moreover from h have "fst (dispatch k E q s) = Inr body"
      if "requests_post E (trace s1) (endpoint k (urls (self s))) q h = Inr (Inr body)"
      for body using that by (simp add: d post_query_def)
    ultimately show ?thesis by blast
  qed
  have bad: "dispatch k E q s = (Inl AuthenticationError, s1)
             \<and> posts (new_events s (snd (dispatch k E q s))) = []"
    if h: "default_headers E (Some []) s = (Inl e, s1)" for e s1
  proof -
    from h default_headers_error [of E "Some []" s e] have e: "e = AuthenticationError"
      by simp
    with h have r: "dispatch k E q s = (Inl AuthenticationError, s1)"
      by (simp add: d post_query_def on_connection_error_def)
    from h have "s1 = snd (default_headers E (Some []) s)" by simp
    with default_headers_state [OF f, of E s]
    have "posts (new_events s s1) = []" by (auto simp add: session_request_def)
    with r show ?thesis by simp
  qed
  from ok bad show ?thesis by blast
qed

theorem dispatch_posts_once_witness:
  "required_fields Reversal \<subseteq> set (map fst reversal_query)
   \<and> posts (new_events example_state
              (snd (dispatch Reversal example_env reversal_query example_state)))
       = [(''sandbox/reversal'', reversal_query,
           [(''Content-Type'', ''application/json''), (''Authorization'', ''Bearer enc:SID''),
            (''Host'', ''openapi.m-pesa.com''), (''Origin'', ''*'')])]
   \<and> fst (dispatch Reversal example_env reversal_query example_state) = Inr example_reply"
proof -
  have r: "required_fields Reversal \<subseteq> set (map fst reversal_query)"
    by (simp add: reversal_required_fields_def reversal_query_def)
  have h: "default_headers example_env (Some []) example_state =
     (Inr [(''Content-Type'', ''application/json''), (''Authorization'', ''Bearer enc:SID''),
           (''Host'', ''openapi.m-pesa.com''), (''Origin'', ''*'')],
      \<lparr>self = example_client,
       trace = [Get ''sandbox/getSession''
                  [(''Content-Type'', ''application/json''),
                   (''Authorization'', ''Bearer enc:APIKEY''),
                   (''Host'', ''openapi.m-pesa.com''), (''Origin'', ''*'')],
                Encrypt ''PUBKEY'' ''SID'']\<rparr>)"
    by (simp add: default_headers_def generate_encrypted_key_def get_session_id_def falsy_def
          headers_dict_def origin_address_def log_def Let_def
          example_env_def example_state_def example_client_def example_keys_def
          example_session_def example_sandbox_def)
  have u: "endpoint Reversal (urls (self example_state)) = ''sandbox/reversal''"
    by (simp add: example_state_def example_client_def example_sandbox_def)
  have p: "requests_post example_env tr url b hs = Inr (Inr example_reply)" for tr url b hs
    by (simp add: example_env_def)
  from dispatch_posts_once [OF r, of example_env example_state] h u p r
  show ?thesis by simp
qed

text \<open>
  Claim C4 as the specification states it fails: the client below was built as in
  \<open>example_env\<close>, the query holds all five required fields of a reversal, the session
  endpoint cannot be reached, and the call raises \<^verbatim>\<open>AuthenticationError\<close> after the
  session request, with no POST.
\<close>

theorem dispatch_without_post_counterexample:
  "fst (Mpesa_init offline_env ''keys.json'' ''testing'' []) = Inr example_client
   \<and> required_fields Reversal \<subseteq> set (map fst reversal_query)
   \<and> fst (dispatch Reversal offline_env reversal_query example_state)
       = Inl AuthenticationError
   \<and> new_events example_state (snd (dispatch Reversal offline_env reversal_query example_state))
       = [Get ''sandbox/getSession''
            [(''Content-Type'', ''application/json''),
             (''Authorization'', ''Bearer enc:APIKEY''),
             (''Host'', ''openapi.m-pesa.com''), (''Origin'', ''*'')]]
   \<and> posts (new_events example_state
              (snd (dispatch Reversal offline_env reversal_query example_state))) = []"
proof -
  have i: "fst (Mpesa_init offline_env ''keys.json'' ''testing'' []) = Inr example_client"
    by (simp add: Mpesa_init_def authenticated_def load_keys_def generate_encrypted_key_def
          offline_env_def example_env_def example_keys_def example_client_def log_def Let_def)
  have r: "required_fields Reversal \<subseteq> set (map fst reversal_query)"
    by (simp add: reversal_required_fields_def reversal_query_def)
  have v: "verify_query reversal_query reversal_required_fields = Inr True"
    by (simp add: verify_query_def reversal_required_fields_def reversal_query_def Let_def)
  have d: "dispatch Reversal offline_env reversal_query example_state =
     (Inl AuthenticationError,
      \<lparr>self = example_client,
       trace = [Get ''sandbox/getSession''
                  [(''Content-Type'', ''application/json''),
                   (''Authorization'', ''Bearer enc:APIKEY''),
                   (''Host'', ''openapi.m-pesa.com''), (''Origin'', ''*'')]]\<rparr>)"
    by (simp add: payment_reversal_call_def v post_query_def default_headers_def
          generate_encrypted_key_def get_session_id_def falsy_def headers_dict_def
          origin_address_def on_connection_error_def log_def Let_def offline_env_def
          example_env_def example_state_def example_client_def example_keys_def
          example_sandbox_def)
  from i r show ?thesis
    by (simp only: d) (simp add: new_events_def example_state_def)
qed

section \<open>The origin address\<close>



end
